theory Spec2Isabelle
  imports Main "HOL-Library.List_Lexorder"
begin

section \<open>Python strings\<close>

text \<open>
  A Python \<^verbatim>\<open>str\<close> is a sequence of Unicode code points. A code point is a natural
  number here, so that the whitespace \<^verbatim>\<open>str.strip()\<close> removes beyond Latin-1 is in
  the model. \<open>ascii\<close> writes a literal of the source.
\<close>

type_synonym codepoint = nat
type_synonym pystr = "codepoint list"

definition ascii :: "string \<Rightarrow> pystr" where
  "ascii cs = map of_char cs"

definition LF :: codepoint where
  "LF = 10"

definition CR :: codepoint where
  "CR = 13"

text \<open>
  \<^verbatim>\<open>str.isspace\<close> on one character: the code points CPython lists as whitespace
  (U+0009..U+000D, U+001C..U+0020, U+0085, U+00A0, U+1680, U+2000..U+200A, U+2028,
  U+2029, U+202F, U+205F, U+3000).
\<close>

definition isspace :: "codepoint \<Rightarrow> bool" where
  "isspace c \<longleftrightarrow>
     (9 \<le> c \<and> c \<le> 13) \<or> (28 \<le> c \<and> c \<le> 32) \<or> c = 133 \<or> c = 160 \<or> c = 5760 \<or>
     (8192 \<le> c \<and> c \<le> 8202) \<or> c = 8232 \<or> c = 8233 \<or> c = 8239 \<or> c = 8287 \<or>
     c = 12288"

text \<open>\<^verbatim>\<open>line.strip()\<close>: whitespace is dropped from the left end, then from the right end.\<close>

definition strip :: "pystr \<Rightarrow> pystr" where
  "strip s = rev (dropWhile isspace (rev (dropWhile isspace s)))"

text \<open>\<^verbatim>\<open>s.startswith(p)\<close>.\<close>

definition startswith :: "pystr \<Rightarrow> pystr \<Rightarrow> bool" where
  "startswith s p \<longleftrightarrow> take (length p) s = p"

section \<open>Reading the input file\<close>

text \<open>
  A run starts from a file system: what opening and reading a path gives, the bytes of the
  file or the \<^verbatim>\<open>errno\<close> of the \<^verbatim>\<open>OSError\<close>. A byte is a \<^typ>\<open>char\<close>.

  The script calls \<^verbatim>\<open>open\<close> with no \<^verbatim>\<open>encoding\<close>, so the bytes are decoded by the
  codec the platform's locale names, with strict error handling (\<open>None\<close> is a
  \<^verbatim>\<open>UnicodeDecodeError\<close>). The codec belongs to the platform the script runs on, like
  the YAML library: it is a parameter of the model, \<open>decode\<close>.
\<close>

type_synonym filesystem = "string \<Rightarrow> nat + string"
type_synonym codec = "string \<Rightarrow> pystr option"

datatype py_exception = OSError nat string | UnicodeDecodeError | ModuleNotFoundError string

definition input_path :: string where
  "input_path = ''forbidden-extensions.txt''"

text \<open>
  Text mode with \<^verbatim>\<open>newline=None\<close> (the default of \<^verbatim>\<open>open\<close>): \<^verbatim>\<open>\r\n\<close> and a lone
  \<^verbatim>\<open>\r\<close> are both read as \<^verbatim>\<open>\n\<close>.
\<close>

fun universal_newlines :: "pystr \<Rightarrow> pystr" where
  "universal_newlines [] = []"
| "universal_newlines [c] = (if c = CR then [LF] else [c])"
| "universal_newlines (c # d # cs) =
     (if c = CR then
        (if d = LF then LF # universal_newlines cs else LF # universal_newlines (d # cs))
      else c # universal_newlines (d # cs))"

text \<open>
  \<^verbatim>\<open>f.readlines()\<close>: the text cut after every \<^verbatim>\<open>\n\<close>, each line keeping its
  terminator; a last line with no terminator is a line too. \<open>cur\<close> is the line being read.
\<close>

fun split_lines :: "pystr \<Rightarrow> pystr \<Rightarrow> pystr list" where
  "split_lines cur [] = (if cur = [] then [] else [cur])"
| "split_lines cur (c # cs) =
     (if c = LF then (cur @ [c]) # split_lines [] cs else split_lines (cur @ [c]) cs)"

definition readlines :: "pystr \<Rightarrow> pystr list" where
  "readlines text = split_lines [] (universal_newlines text)"

text \<open>
  \<^verbatim>\<open>with open("forbidden-extensions.txt") as f: lines = f.readlines()\<close>, either
  exception of which ends the run.
\<close>

definition read_input :: "codec \<Rightarrow> filesystem \<Rightarrow> py_exception + pystr" where
  "read_input decode fs =
     (case fs input_path of
        Inl errno \<Rightarrow> Inl (OSError errno input_path)
      | Inr bytes \<Rightarrow>
          (case decode bytes of
             None \<Rightarrow> Inl UnicodeDecodeError
           | Some text \<Rightarrow> Inr text))"

section \<open>The filter loop\<close>

text \<open>
  The \<^verbatim>\<open>for line in lines\<close> loop, with the list \<^verbatim>\<open>patterns\<close> it appends to as the
  second argument.
\<close>

fun collect :: "pystr list \<Rightarrow> pystr list \<Rightarrow> pystr list" where
  "collect [] patterns = patterns"
| "collect (line # lines) patterns =
     (let line = strip line in
      if line = [] \<or> startswith line (ascii ''#'') then collect lines patterns
      else collect lines (patterns @ [ascii ''*.'' @ line]))"

definition patterns_of :: "pystr list \<Rightarrow> pystr list" where
  "patterns_of lines = collect lines []"

section \<open>The ruleset document\<close>

text \<open>
  The Python values the script builds: strings, lists and dictionaries. A dictionary
  keeps its items in insertion order, so it is an association list. A list or
  dictionary is an object with an identity (what \<^verbatim>\<open>id()\<close> tells apart): the label
  says which places of the document hold the same object. The labels themselves are
  arbitrary; only their being equal or different matters.
\<close>

datatype pyval =
  PyStr pystr
| PyList nat "pyval list"
| PyDict nat "(pystr \<times> pyval) list"

text \<open>
  The dictionary literal \<^verbatim>\<open>ruleset\<close>. The list \<^verbatim>\<open>patterns\<close> is one object (label 0)
  and the literal names it twice.
\<close>

definition ruleset :: "pystr list \<Rightarrow> pyval" where
  "ruleset patterns =
     (let patterns = PyList 0 (map PyStr patterns) in
      PyDict 1
        [(ascii ''name'', PyStr (ascii ''Block Forbidden File Types'')),
         (ascii ''target'', PyStr (ascii ''push'')),
         (ascii ''enforcement'', PyStr (ascii ''active'')),
         (ascii ''conditions'',
            PyDict 2
              [(ascii ''file_paths'', PyDict 3 [(ascii ''included'', patterns)]),
               (ascii ''branches'',
                  PyDict 4 [(ascii ''includes'', PyList 5 [PyStr (ascii ''*'')])])]),
         (ascii ''rules'',
            PyList 6
              [PyDict 7
                 [(ascii ''type'', PyStr (ascii ''file_path_restriction'')),
                  (ascii ''parameters'',
                     PyDict 8 [(ascii ''restricted_file_patterns'', patterns)])]])])"

text \<open>
  Reading a place of a document: \<^verbatim>\<open>d[key]\<close> on a dictionary and \<^verbatim>\<open>xs[i]\<close> on a list,
  \<open>None\<close> where Python raises \<^verbatim>\<open>KeyError\<close>, \<^verbatim>\<open>IndexError\<close> or \<^verbatim>\<open>TypeError\<close>.
\<close>

datatype selector = Key pystr | Index nat

fun select :: "pyval \<Rightarrow> selector \<Rightarrow> pyval option" where
  "select (PyDict _ items) (Key k) = map_of items k"
| "select (PyList _ xs) (Index i) = (if i < length xs then Some (xs ! i) else None)"
| "select _ _ = None"

fun at_path :: "pyval \<Rightarrow> selector list \<Rightarrow> pyval option" where
  "at_path v [] = Some v"
| "at_path v (s # ss) = (case select v s of None \<Rightarrow> None | Some u \<Rightarrow> at_path u ss)"

definition included_path :: "selector list" where
  "included_path =
     [Key (ascii ''conditions''), Key (ascii ''file_paths''), Key (ascii ''included'')]"

definition restricted_path :: "selector list" where
  "restricted_path =
     [Key (ascii ''rules''), Index 0, Key (ascii ''parameters''),
      Key (ascii ''restricted_file_patterns'')]"

text \<open>The strings of a list of strings, \<open>None\<close> for any other value.\<close>

fun str_of :: "pyval \<Rightarrow> pystr option" where
  "str_of (PyStr s) = Some s"
| "str_of _ = None"

fun strings_of :: "pyval \<Rightarrow> pystr list option" where
  "strings_of (PyList _ xs) =
     (if list_all (\<lambda>x. str_of x \<noteq> None) xs then Some (map (\<lambda>x. the (str_of x)) xs) else None)"
| "strings_of _ = None"

text \<open>The string, and the list of strings, at a place of a document.\<close>

definition str_at :: "pyval \<Rightarrow> selector list \<Rightarrow> pystr option" where
  "str_at d path = (case at_path d path of None \<Rightarrow> None | Some v \<Rightarrow> str_of v)"

definition strings_at :: "pyval \<Rightarrow> selector list \<Rightarrow> pystr list option" where
  "strings_at d path = (case at_path d path of None \<Rightarrow> None | Some v \<Rightarrow> strings_of v)"

section \<open>Serialization\<close>

text \<open>
  The script ends with \<^verbatim>\<open>print(yaml.dump(ruleset, sort_keys=False))\<close>. The function
  \<^verbatim>\<open>yaml.dump\<close> is PyYAML's: its code is not among the files of the repository, and
  the model below follows what the specification and the library's interface say of it.
  The node graph is the library's intermediate form of a document: scalars, sequences and
  mappings. One Python object gives one node, so a node carries the label of its object.
\<close>

datatype yaml_node =
  ScalarNode pystr
| SequenceNode nat "yaml_node list"
| MappingNode nat "(yaml_node \<times> yaml_node) list"

text \<open>
  Modelled from the spec: the representer of \<^verbatim>\<open>yaml.dump\<close>, whose code is PyYAML's and
  is missing from the sources. The specification has the serialization render the record
  as nested mappings and sequences, preserving key insertion order as authored (not
  alphabetized): a string becomes a scalar, a list a sequence, and a dictionary a
  mapping whose pairs are the dictionary's items in the dictionary's own order. The
  argument \<^verbatim>\<open>sort_keys\<close> is the library's switch for this: when it is true (the
  default of \<^verbatim>\<open>yaml.dump\<close>) the items are sorted by key first.
\<close>

function represent_data :: "bool \<Rightarrow> pyval \<Rightarrow> yaml_node" where
  "represent_data sort_keys (PyStr s) = ScalarNode s"
| "represent_data sort_keys (PyList i xs) = SequenceNode i (map (represent_data sort_keys) xs)"
| "represent_data sort_keys (PyDict i items) =
     MappingNode i
       (map (\<lambda>item. (ScalarNode (fst item), represent_data sort_keys (snd item)))
          (if sort_keys then sort_key fst items else items))"
  by pat_completeness auto
termination
proof (relation "measure (\<lambda>(sort_keys, v). size v)", goal_cases)
  case 1
  show ?case by simp
next
  case (2 sort_keys i xs x)
  then show ?case by (simp add: less_Suc_eq_le size_list_estimation')
next
  case (3 sort_keys i items item)
  then have "item \<in> set items" by (simp split: if_splits)
  moreover have "size (snd item) \<le> size_prod (\<lambda>_. 0) size item"
    by (cases item) simp
  ultimately have "size (snd item) \<le> size_list (size_prod (\<lambda>_. 0) size) items"
    by (rule size_list_estimation')
  then show ?case by simp
qed

text \<open>
  \<^verbatim>\<open>yaml.dump(data, sort_keys=...)\<close> with no stream returns the text of the document. The
  stages after the representer (anchors for shared nodes, block layout, quoting of
  scalars) decide how the node graph is written as characters; they are the parameter
  \<open>present\<close>, about which nothing is assumed.
\<close>

definition yaml_dump :: "(yaml_node \<Rightarrow> pystr) \<Rightarrow> pyval \<Rightarrow> bool \<Rightarrow> pystr" where
  "yaml_dump present data sort_keys = present (represent_data sort_keys data)"



section \<open>The script\<close>

text \<open>
  What a run leaves behind: the characters written to standard output, the exception
  reported on standard error if any (the traceback of an uncaught exception, or the
  exception ignored when standard output is flushed at exit), and the exit status.
\<close>

record outcome =
  stdout :: pystr
  traceback :: "py_exception option"
  exit_status :: nat

definition document :: "pystr \<Rightarrow> pyval" where
  "document text = ruleset (patterns_of (readlines text))"

text \<open>
  The statements of the script from \<^verbatim>\<open>open\<close> to \<^verbatim>\<open>print\<close>, where PyYAML is
  imported and standard output takes what is written to it. An exception of the
  \<^verbatim>\<open>with\<close> block is not caught: the interpreter prints the traceback and exits with
  status 1, and no later statement runs. Otherwise \<^verbatim>\<open>print\<close> writes the dumped
  document and a newline, and the exit status is 0.
\<close>

definition main :: "codec \<Rightarrow> (yaml_node \<Rightarrow> pystr) \<Rightarrow> filesystem \<Rightarrow> outcome" where
  "main decode present fs =
     (case read_input decode fs of
        Inl exn \<Rightarrow> \<lparr>stdout = [], traceback = Some exn, exit_status = 1\<rparr>
      | Inr text \<Rightarrow>
          \<lparr>stdout = yaml_dump present (document text) False @ [LF],
           traceback = None, exit_status = 0\<rparr>)"

text \<open>
  The process as a whole, on a platform: the codec of its locale, whether
  \<^verbatim>\<open>import yaml\<close> finds PyYAML, and what standard output does with the text. The import
  is the first statement that can fail, before the file is opened
  (\<^verbatim>\<open>ModuleNotFoundError\<close>, status 1). A standard output that is closed when the
  interpreter starts makes \<^verbatim>\<open>sys.stdout\<close> \<^verbatim>\<open>None\<close>, and \<^verbatim>\<open>print\<close> then writes
  nothing and raises nothing. A standard output that refuses the write (a full device, a
  closed pipe) takes no character: when the text fits the buffers of \<^verbatim>\<open>sys.stdout\<close>
  the \<^verbatim>\<open>OSError\<close> comes at the flush on exit, is reported as ignored and the status
  is 120; a longer text makes \<^verbatim>\<open>print\<close> raise it, with status 1. The \<^verbatim>\<open>OSError\<close> of
  a write names no file.
\<close>

datatype sink = Accepting | Refusing nat | Closed

record platform =
  locale_codec :: codec
  yaml_installed :: bool
  stdout_sink :: sink
  stdout_buffer :: nat

definition run :: "platform \<Rightarrow> (yaml_node \<Rightarrow> pystr) \<Rightarrow> filesystem \<Rightarrow> outcome" where
  "run pf present fs =
     (if \<not> yaml_installed pf then
        \<lparr>stdout = [], traceback = Some (ModuleNotFoundError ''yaml''), exit_status = 1\<rparr>
      else
        (case read_input (locale_codec pf) fs of
           Inl exn \<Rightarrow> main (locale_codec pf) present fs
         | Inr text \<Rightarrow>
             (case stdout_sink pf of
                Accepting \<Rightarrow> main (locale_codec pf) present fs
              | Closed \<Rightarrow> \<lparr>stdout = [], traceback = None, exit_status = 0\<rparr>
              | Refusing errno \<Rightarrow>
                  \<lparr>stdout = [], traceback = Some (OSError errno []),
                   exit_status =
                     (if length (yaml_dump present (document text) False) \<le> stdout_buffer pf
                      then 120 else 1)\<rparr>)))"

text \<open>Python's \<^verbatim>\<open>ascii\<close> and \<^verbatim>\<open>latin-1\<close> codecs with strict errors, two codecs a
  locale can name.\<close>

definition decode_latin1 :: codec where
  "decode_latin1 bytes = Some (map of_char bytes)"

definition decode_ascii :: codec where
  "decode_ascii bytes =
     (if list_all (\<lambda>b. (of_char b :: nat) < 128) bytes then Some (map of_char bytes) else None)"

section \<open>Vocabulary of the properties\<close>

text \<open>
  A line is blank or a comment when, after trimming, it is empty or its first character
  is \<^verbatim>\<open>#\<close>. The retained lines are the others, in their order.
\<close>

definition blank_or_comment :: "pystr \<Rightarrow> bool" where
  "blank_or_comment line =
     (case strip line of [] \<Rightarrow> True | c # _ \<Rightarrow> c = of_char (CHR ''#''))"

definition retained :: "pystr list \<Rightarrow> pystr list" where
  "retained lines = filter (\<lambda>line. \<not> blank_or_comment line) lines"


text \<open>
  File systems for concrete runs: one where the input file holds the given bytes and no
  other path can be opened (\<^verbatim>\<open>ENOENT\<close> is 2), one where every path holds the given
  bytes, and one with no file at all.
\<close>

definition only_file :: "string \<Rightarrow> filesystem" where
  "only_file bytes = (\<lambda>p. if p = input_path then Inr bytes else Inl 2)"



text \<open>
  Platforms for concrete runs: PyYAML installed and a standard output that takes the
  text behind a buffer of 8192 characters, under an ASCII and under a Latin-1 locale; the
  first one with a standard output that refuses every write (\<^verbatim>\<open>ENOSPC\<close> is 28); and
  the first one without PyYAML.
\<close>

definition ascii_platform :: platform where
  "ascii_platform =
     \<lparr>locale_codec = decode_ascii, yaml_installed = True, stdout_sink = Accepting,
      stdout_buffer = 8192\<rparr>"

definition latin1_platform :: platform where
  "latin1_platform =
     \<lparr>locale_codec = decode_latin1, yaml_installed = True, stdout_sink = Accepting,
      stdout_buffer = 8192\<rparr>"

definition full_device_platform :: platform where
  "full_device_platform =
     \<lparr>locale_codec = decode_ascii, yaml_installed = True, stdout_sink = Refusing 28,
      stdout_buffer = 8192\<rparr>"

definition bare_platform :: platform where
  "bare_platform =
     \<lparr>locale_codec = decode_ascii, yaml_installed = False, stdout_sink = Accepting,
      stdout_buffer = 8192\<rparr>"

text \<open>A file of one token line with a byte that is not ASCII, and a file that starts
  with the byte of a no-break space in Latin-1.\<close>

definition latin_token :: string where
  "latin_token = ''ex'' @ [CHR 0xE9, CHR 0x0A]"

definition nbsp_token :: string where
  "nbsp_token = [CHR 0xA0] @ ''e''"

text \<open>The input of the first scenario, and an input of comments and blank lines only
  (one of them ending in \<^verbatim>\<open>\r\n\<close>, the last with no terminator).\<close>

definition scenario1 :: string where
  "scenario1 =
     ''# images'' @ [CHR 0x0A] @ ''exe'' @ [CHR 0x0A] @ ''bat'' @ [CHR 0x0A] @ [CHR 0x0A] @
     ''tar.gz'' @ [CHR 0x0A]"

definition comments_only :: string where
  "comments_only =
     ''# nothing here'' @ [CHR 0x0A] @ ''   '' @ [CHR 0x0D, CHR 0x0A] @ [CHR 0x0A] @ ''#exe''"

text \<open>
  Two inputs with one content, for the invariance under line endings and padding: lines
  ending in \<^verbatim>\<open>\r\n\<close> with blanks and a tab around the tokens, and the same lines
  ending in \<^verbatim>\<open>\n\<close> with no padding (the last one unterminated).
\<close>

definition padded_crlf :: string where
  "padded_crlf =
     ''  exe '' @ [CHR 0x0D, CHR 0x0A] @ ''# c'' @ [CHR 0x0D, CHR 0x0A] @ [CHR 0x0D, CHR 0x0A] @
     ''tar.gz'' @ [CHR 0x09, CHR 0x0D, CHR 0x0A]"

definition plain_lf :: string where
  "plain_lf = ''exe'' @ [CHR 0x0A] @ ''# c'' @ [CHR 0x0A] @ [CHR 0x0A] @ ''tar.gz''"

text \<open>
  The lines of a text as it stands in the file, cut after every \<^verbatim>\<open>\n\<close> with no
  translation of \<^verbatim>\<open>\r\<close>; the pieces of a text between any two line ends (\<^verbatim>\<open>\r\<close> or
  \<^verbatim>\<open>\n\<close>), \<open>cur\<close> being the piece under way; and the patterns one line of the file
  gives once its \<^verbatim>\<open>\r\<close> are read as line ends.
\<close>

definition raw_lines :: "pystr \<Rightarrow> pystr list" where
  "raw_lines text = split_lines [] text"

fun segments :: "pystr \<Rightarrow> pystr \<Rightarrow> pystr list" where
  "segments cur [] = [cur]"
| "segments cur (c # cs) =
     (if c = CR \<or> c = LF then cur # segments [] cs else segments (cur @ [c]) cs)"

definition line_patterns :: "pystr \<Rightarrow> pystr list" where
  "line_patterns l = patterns_of (segments [] l)"

section \<open>The filter loop, line by line\<close>

lemma skip_iff_blank_or_comment:
  "(strip l = [] \<or> startswith (strip l) (ascii ''#'')) = blank_or_comment l"
  by (cases "strip l") (auto simp: blank_or_comment_def startswith_def ascii_def)

text \<open>The list the loop appends to only grows at its end.\<close>

lemma collect_acc: "collect lines acc = acc @ collect lines []"
proof (induction lines arbitrary: acc)
  case Nil
  show ?case by simp
next
  case (Cons l ls)
  show ?case
  proof (cases "blank_or_comment l")
    case True
    then show ?thesis
      using Cons.IH [of acc] by (simp add: skip_iff_blank_or_comment Let_def)
  next
    case False
    then show ?thesis
      using Cons.IH [of "acc @ [ascii ''*.'' @ strip l]"] Cons.IH [of "[ascii ''*.'' @ strip l]"]
      by (simp add: skip_iff_blank_or_comment Let_def)
  qed
qed

lemma patterns_of_Nil: "patterns_of [] = []"
  by (simp add: patterns_of_def)

lemma patterns_of_Cons:
  "patterns_of (l # ls) =
     (if blank_or_comment l then [] else [ascii ''*.'' @ strip l]) @ patterns_of ls"
  using collect_acc [of ls "[ascii ''*.'' @ strip l]"]
  by (simp add: patterns_of_def skip_iff_blank_or_comment Let_def)

lemma patterns_of_append: "patterns_of (xs @ ys) = patterns_of xs @ patterns_of ys"
  by (induction xs) (simp_all add: patterns_of_Nil patterns_of_Cons)

lemma patterns_of_retained:
  "patterns_of lines = map (\<lambda>l. ascii ''*.'' @ strip l) (retained lines)"
  by (induction lines) (simp_all add: patterns_of_Nil patterns_of_Cons retained_def)

lemma length_patterns_of: "length (patterns_of lines) = length (retained lines)"
  by (simp add: patterns_of_retained)

text \<open>
  C1: a line of the input contributes nothing to the patterns exactly when, after
  trimming, it is empty or starts with \<^verbatim>\<open>#\<close>. Whatever stands before and after the
  line, the output is the output of the lines before, then the line's own share (nothing
  for a blank or comment line, one pattern otherwise), then the output of the lines
  after; and the output is the one of the input without the line if and only if the line
  is blank or a comment.
\<close>

theorem excluded_iff_blank_or_comment:
  "patterns_of (before @ line # after) =
     patterns_of before @
     (if blank_or_comment line then [] else [ascii ''*.'' @ strip line]) @
     patterns_of after \<and>
   (patterns_of (before @ line # after) = patterns_of (before @ after)) =
     blank_or_comment line"
proof -
  have split: "patterns_of (before @ line # after) =
     patterns_of before @
     (if blank_or_comment line then [] else [ascii ''*.'' @ strip line]) @
     patterns_of after"
    by (simp add: patterns_of_append patterns_of_Cons)
  have "(patterns_of (before @ line # after) = patterns_of (before @ after)) =
     blank_or_comment line"
  proof (cases "blank_or_comment line")
    case True
    then show ?thesis by (simp add: patterns_of_append patterns_of_Cons)
  next
    case False
    then have "length (patterns_of (before @ line # after)) \<noteq>
        length (patterns_of (before @ after))"
      by (simp add: length_patterns_of retained_def)
    with False show ?thesis by auto
  qed
  with split show ?thesis by simp
qed

lemma count_list_map_inj: "inj f \<Longrightarrow> count_list (map f xs) (f x) = count_list xs x"
  by (induction xs) (auto dest: injD)

text \<open>
  C2: the patterns are the retained lines, each trimmed and prefixed with \<^verbatim>\<open>*.\<close>, one
  pattern per retained line and in the order of the lines: the pattern at position \<open>i\<close>
  comes from the \<open>i\<close>-th retained line. Nothing is deduplicated: a pattern occurs as
  often as its token occurs among the trimmed retained lines.
\<close>

theorem patterns_follow_retained_lines:
  "patterns_of lines = map (\<lambda>l. ascii ''*.'' @ strip l) (retained lines) \<and>
   (\<forall>i < length (retained lines).
      patterns_of lines ! i = ascii ''*.'' @ strip (retained lines ! i)) \<and>
   count_list (patterns_of lines) (ascii ''*.'' @ token) =
     count_list (map strip (retained lines)) token"
proof -
  have "inj (\<lambda>s. ascii ''*.'' @ s)"
    by (simp add: inj_on_def)
  then have "count_list (map (\<lambda>s. ascii ''*.'' @ s) (map strip (retained lines)))
        (ascii ''*.'' @ token) =
      count_list (map strip (retained lines)) token"
    by (rule count_list_map_inj)
  then have "count_list (patterns_of lines) (ascii ''*.'' @ token) =
      count_list (map strip (retained lines)) token"
    by (simp add: patterns_of_retained comp_def)
  then show ?thesis by (simp add: patterns_of_retained)
qed

text \<open>The third scenario: the token \<^verbatim>\<open>exe\<close> twice, a comment between.\<close>

theorem patterns_follow_retained_lines_witness:
  "(1::nat) < length (retained [ascii ''exe'' @ [LF], ascii ''# dup'' @ [LF], ascii '' exe'' @ [LF]]) \<and>
   patterns_of [ascii ''exe'' @ [LF], ascii ''# dup'' @ [LF], ascii '' exe'' @ [LF]] =
     [ascii ''*.exe'', ascii ''*.exe''] \<and>
   patterns_of [ascii ''exe'' @ [LF], ascii ''# dup'' @ [LF], ascii '' exe'' @ [LF]] ! 1 =
     ascii ''*.exe'' \<and>
   count_list (patterns_of [ascii ''exe'' @ [LF], ascii ''# dup'' @ [LF], ascii '' exe'' @ [LF]])
     (ascii ''*.exe'') = 2"
  using patterns_follow_retained_lines
    [of "[ascii ''exe'' @ [LF], ascii ''# dup'' @ [LF], ascii '' exe'' @ [LF]]" "ascii ''exe''"]
  by (simp add: ascii_def LF_def strip_def isspace_def blank_or_comment_def retained_def)

section \<open>The document\<close>

lemma at_included: "at_path (ruleset ps) included_path = Some (PyList 0 (map PyStr ps))"
  by (simp add: ruleset_def included_path_def ascii_def Let_def)

lemma at_restricted: "at_path (ruleset ps) restricted_path = Some (PyList 0 (map PyStr ps))"
  by (simp add: ruleset_def restricted_path_def ascii_def Let_def)

lemma strings_of_patterns: "strings_of (PyList i (map PyStr ps)) = Some ps"
  by (simp add: list_all_iff comp_def)

lemma strings_at_included: "strings_at (ruleset ps) included_path = Some ps"
  by (simp del: strings_of.simps add: strings_at_def at_included strings_of_patterns)

lemma strings_at_restricted: "strings_at (ruleset ps) restricted_path = Some ps"
  by (simp del: strings_of.simps add: strings_at_def at_restricted strings_of_patterns)

text \<open>
  C3: for every input text, the document holds the same value at
  \<^verbatim>\<open>conditions.file_paths.included\<close> and at
  \<^verbatim>\<open>rules[0].parameters.restricted_file_patterns\<close>: the one list object of the patterns
  of the input, so the same strings in the same order at both places.
\<close>

theorem pattern_locations_agree:
  "at_path (document text) restricted_path = at_path (document text) included_path \<and>
   strings_at (document text) included_path = Some (patterns_of (readlines text)) \<and>
   strings_at (document text) restricted_path = Some (patterns_of (readlines text))"
  by (simp add: document_def at_included at_restricted strings_at_included strings_at_restricted)

section \<open>Runs\<close>

lemma run_ascii_latin_token:
  "run ascii_platform present (only_file nbsp_token) =
     \<lparr>stdout = [], traceback = Some UnicodeDecodeError, exit_status = 1\<rparr>"
  by (simp add: run_def main_def read_input_def ascii_platform_def only_file_def
      decode_ascii_def nbsp_token_def)

lemma patterns_nbsp_token:
  "patterns_of (readlines (map of_char nbsp_token)) = [ascii ''*.e'']"
  by (simp add: nbsp_token_def ascii_def readlines_def CR_def LF_def patterns_of_def strip_def
      isspace_def startswith_def)

lemma run_latin1_latin_token:
  "run latin1_platform present (only_file nbsp_token) =
     \<lparr>stdout = yaml_dump present (ruleset [ascii ''*.e'']) False @ [LF], traceback = None,
      exit_status = 0\<rparr>"
  by (simp add: run_def main_def read_input_def latin1_platform_def only_file_def
      decode_latin1_def document_def patterns_nbsp_token)

text \<open>
  C4, as stated, fails: the script opens the file with no \<^verbatim>\<open>encoding\<close>, so the same
  two bytes (\<^verbatim>\<open>0xA0\<close>, \<^verbatim>\<open>e\<close>) end the run with a \<^verbatim>\<open>UnicodeDecodeError\<close>, status 1
  and an empty standard output under an ASCII locale, and give the document of the
  pattern \<^verbatim>\<open>*.e\<close> with status 0 under a Latin-1 locale. The two standard outputs
  differ whatever the YAML writer does.
\<close>

theorem same_bytes_other_locale_counterexample:
  "\<forall>present.
     run ascii_platform present (only_file nbsp_token) =
       \<lparr>stdout = [], traceback = Some UnicodeDecodeError, exit_status = 1\<rparr> \<and>
     run latin1_platform present (only_file nbsp_token) =
       \<lparr>stdout = yaml_dump present (ruleset [ascii ''*.e'']) False @ [LF], traceback = None,
        exit_status = 0\<rparr> \<and>
     stdout (run ascii_platform present (only_file nbsp_token)) \<noteq>
       stdout (run latin1_platform present (only_file nbsp_token))"
  by (simp add: run_ascii_latin_token run_latin1_latin_token)



lemma patterns_of_all_skipped: "list_all blank_or_comment lines \<Longrightarrow> patterns_of lines = []"
  by (induction lines) (simp_all add: patterns_of_Nil patterns_of_Cons)

text \<open>
  C5: when the input file can be read and every line of it is blank or a comment, the
  run succeeds (exit status 0, no traceback) and prints the whole document, built from the
  empty pattern list: the list at both places of the document is empty.
\<close>

theorem comments_only_gives_empty_patterns:
  assumes "fs input_path = Inr bytes" and "decode bytes = Some text"
    and "list_all blank_or_comment (readlines text)"
  shows "main decode present fs =
      \<lparr>stdout = yaml_dump present (ruleset []) False @ [LF], traceback = None,
       exit_status = 0\<rparr> \<and>
    document text = ruleset [] \<and>
    strings_at (document text) included_path = Some [] \<and>
    strings_at (document text) restricted_path = Some []"
proof -
  from assms(3) have doc: "document text = ruleset []"
    by (simp add: document_def patterns_of_all_skipped)
  with assms(1,2) have "main decode present fs =
      \<lparr>stdout = yaml_dump present (ruleset []) False @ [LF], traceback = None,
       exit_status = 0\<rparr>"
    by (simp add: main_def read_input_def)
  then show ?thesis
    by (simp add: doc strings_at_included strings_at_restricted)
qed

theorem comments_only_gives_empty_patterns_witness:
  "only_file comments_only input_path = Inr comments_only \<and>
   decode_ascii comments_only = Some (ascii comments_only) \<and>
   list_all blank_or_comment (readlines (ascii comments_only)) \<and>
   (\<forall>present. main decode_ascii present (only_file comments_only) =
      \<lparr>stdout = yaml_dump present (ruleset []) False @ [LF], traceback = None,
       exit_status = 0\<rparr>) \<and>
   strings_at (document (ascii comments_only)) included_path = Some [] \<and>
   strings_at (document (ascii comments_only)) restricted_path = Some []"
proof -
  have f: "only_file comments_only input_path = Inr comments_only"
    by (simp add: only_file_def)
  have e: "decode_ascii comments_only = Some (ascii comments_only)"
    by (simp add: only_file_def decode_ascii_def comments_only_def ascii_def)
  have l: "list_all blank_or_comment (readlines (ascii comments_only))"
    by (simp add: comments_only_def ascii_def readlines_def CR_def LF_def blank_or_comment_def
        strip_def isspace_def)
  show ?thesis
    using f e l
      comments_only_gives_empty_patterns
        [of "only_file comments_only" comments_only decode_ascii "ascii comments_only", OF f e l]
    by blast
qed

lemma patterns_scenario1:
  "patterns_of (readlines (ascii scenario1)) = [ascii ''*.exe'', ascii ''*.bat'', ascii ''*.tar.gz'']"
  by (simp add: scenario1_def ascii_def readlines_def CR_def LF_def patterns_of_def strip_def
      isspace_def startswith_def)

lemma ruleset_constants:
  "str_at (ruleset ps) [Key (ascii ''name'')] = Some (ascii ''Block Forbidden File Types'')"
  "str_at (ruleset ps) [Key (ascii ''target'')] = Some (ascii ''push'')"
  "str_at (ruleset ps) [Key (ascii ''enforcement'')] = Some (ascii ''active'')"
  "strings_at (ruleset ps)
     [Key (ascii ''conditions''), Key (ascii ''branches''), Key (ascii ''includes'')] =
     Some [ascii ''*'']"
  by (simp_all add: str_at_def strings_at_def ruleset_def ascii_def Let_def)

text \<open>
  C6: the first scenario. For the input \<^verbatim>\<open># images\<close>, \<^verbatim>\<open>exe\<close>, \<^verbatim>\<open>bat\<close>, an empty
  line, \<^verbatim>\<open>tar.gz\<close>, the document holds the patterns \<^verbatim>\<open>*.exe\<close>, \<^verbatim>\<open>*.bat\<close>,
  \<^verbatim>\<open>*.tar.gz\<close> at both places, the name \<^verbatim>\<open>Block Forbidden File Types\<close>, the target
  \<^verbatim>\<open>push\<close>, the enforcement \<^verbatim>\<open>active\<close> and the branches \<^verbatim>\<open>["*"]\<close>; and the run on
  a file of these bytes prints this document and exits with status 0.
\<close>

theorem scenario1_document:
  "strings_at (document (ascii scenario1)) included_path =
     Some [ascii ''*.exe'', ascii ''*.bat'', ascii ''*.tar.gz''] \<and>
   strings_at (document (ascii scenario1)) restricted_path =
     Some [ascii ''*.exe'', ascii ''*.bat'', ascii ''*.tar.gz''] \<and>
   str_at (document (ascii scenario1)) [Key (ascii ''name'')] =
     Some (ascii ''Block Forbidden File Types'') \<and>
   str_at (document (ascii scenario1)) [Key (ascii ''target'')] = Some (ascii ''push'') \<and>
   str_at (document (ascii scenario1)) [Key (ascii ''enforcement'')] = Some (ascii ''active'') \<and>
   strings_at (document (ascii scenario1))
     [Key (ascii ''conditions''), Key (ascii ''branches''), Key (ascii ''includes'')] =
     Some [ascii ''*''] \<and>
   main decode_ascii present (only_file scenario1) =
     \<lparr>stdout = yaml_dump present (document (ascii scenario1)) False @ [LF], traceback = None,
      exit_status = 0\<rparr>"
proof -
  have doc: "document (ascii scenario1) =
      ruleset [ascii ''*.exe'', ascii ''*.bat'', ascii ''*.tar.gz'']"
    by (simp add: document_def patterns_scenario1)
  have "read_input decode_ascii (only_file scenario1) = Inr (ascii scenario1)"
    by (simp add: read_input_def only_file_def decode_ascii_def scenario1_def ascii_def)
  then have "main decode_ascii present (only_file scenario1) =
      \<lparr>stdout = yaml_dump present (document (ascii scenario1)) False @ [LF], traceback = None,
       exit_status = 0\<rparr>"
    by (simp add: main_def)
  then show ?thesis
    by (simp add: doc ruleset_constants strings_at_included strings_at_restricted)
qed

lemma run_ascii_undecodable:
  "run ascii_platform present (only_file latin_token) =
     \<lparr>stdout = [], traceback = Some UnicodeDecodeError, exit_status = 1\<rparr>"
  by (simp add: run_def main_def read_input_def ascii_platform_def only_file_def
      decode_ascii_def latin_token_def)

lemma read_exe: "read_input decode_ascii (only_file ''exe'') = Inr (ascii ''exe'')"
  by (simp add: read_input_def only_file_def decode_ascii_def ascii_def)


text \<open>
  C7, as stated, fails in its last part: a failed \<^verbatim>\<open>open\<close> is not the only failure.
  The file of the one token line \<^verbatim>\<open>ex\xe9\<close> is opened and read, and under an ASCII
  locale the run still ends with status 1 and an empty standard output, its traceback a
  \<^verbatim>\<open>UnicodeDecodeError\<close> that names no file; the file \<^verbatim>\<open>exe\<close> is read and decoded, and
  the run still fails when standard output refuses the text, or when PyYAML is not
  installed.
\<close>

theorem other_failures_counterexample:
  "only_file latin_token input_path = Inr latin_token \<and>
   (\<forall>present. run ascii_platform present (only_file latin_token) =
      \<lparr>stdout = [], traceback = Some UnicodeDecodeError, exit_status = 1\<rparr>) \<and>
   read_input decode_ascii (only_file ''exe'') = Inr (ascii ''exe'') \<and>
   (\<forall>present. exit_status (run full_device_platform present (only_file ''exe'')) \<noteq> 0 \<and>
      stdout (run full_device_platform present (only_file ''exe'')) = []) \<and>
   (\<forall>present. run bare_platform present (only_file ''exe'') =
      \<lparr>stdout = [], traceback = Some (ModuleNotFoundError ''yaml''), exit_status = 1\<rparr>)"
proof -
  have "only_file latin_token input_path = Inr latin_token"
    by (simp add: only_file_def)
  moreover have "exit_status (run full_device_platform present (only_file ''exe'')) \<noteq> 0 \<and>
      stdout (run full_device_platform present (only_file ''exe'')) = []" for present
    by (simp add: run_def full_device_platform_def read_exe)
  moreover have "run bare_platform present (only_file ''exe'') =
      \<lparr>stdout = [], traceback = Some (ModuleNotFoundError ''yaml''), exit_status = 1\<rparr>"
    for present
    by (simp add: run_def bare_platform_def)
  ultimately show ?thesis
    by (simp add: run_ascii_undecodable read_exe)
qed



section \<open>Key order\<close>








section \<open>Tokens are taken verbatim\<close>

text \<open>
  C9: a line whose trimmed text starts with a character other than \<^verbatim>\<open>#\<close> gives the
  pattern \<^verbatim>\<open>*.\<close> followed by the whole trimmed text, whatever follows the first
  character (a \<^verbatim>\<open>#\<close> later in the line is part of the token); a non-blank line is
  ignored only when its first trimmed character is \<^verbatim>\<open>#\<close>.
\<close>

theorem inline_hash_is_kept:
  "strip line = c # rest \<Longrightarrow>
     patterns_of [line] = (if c = of_char (CHR ''#'') then [] else [ascii ''*.'' @ c # rest])"
  by (simp add: patterns_of_Cons patterns_of_Nil blank_or_comment_def)

theorem inline_hash_is_kept_witness:
  "strip (ascii ''exe # note'' @ [LF]) = of_char (CHR ''e'') # ascii ''xe # note'' \<and>
   patterns_of [ascii ''exe # note'' @ [LF]] = [ascii ''*.exe # note'']"
proof -
  have s: "strip (ascii ''exe # note'' @ [LF]) = of_char (CHR ''e'') # ascii ''xe # note''"
    by (simp add: strip_def ascii_def LF_def isspace_def)
  show ?thesis
    using s inline_hash_is_kept [OF s] by (simp add: ascii_def)
qed

section \<open>Line endings and padding\<close>

lemma isspace_CR_LF: "isspace CR" "isspace LF"
  by (simp_all add: isspace_def CR_def LF_def)

lemma strip_Cons_space: "isspace c \<Longrightarrow> strip (c # s) = strip s"
  by (simp add: strip_def)

lemma strip_snoc_space:
  assumes "isspace c"
  shows "strip (s @ [c]) = strip s"
proof (cases "\<forall>x\<in>set s. isspace x")
  case True
  then have e: "dropWhile isspace s = []" by simp
  from True assms show ?thesis by (simp add: strip_def dropWhile_append e)
next
  case False
  with assms show ?thesis by (auto simp: strip_def dropWhile_append)
qed

lemma blank_Nil: "blank_or_comment []"
  by (simp add: blank_or_comment_def strip_def)

lemma blank_snoc_space: "isspace c \<Longrightarrow> blank_or_comment (s @ [c]) = blank_or_comment s"
  by (simp add: blank_or_comment_def strip_snoc_space)

lemma blank_Cons_space: "isspace c \<Longrightarrow> blank_or_comment (c # s) = blank_or_comment s"
  by (simp add: blank_or_comment_def strip_Cons_space)

lemmas line_simps = patterns_of_Cons patterns_of_Nil blank_Nil blank_snoc_space blank_Cons_space
  strip_snoc_space strip_Cons_space isspace_CR_LF

text \<open>The patterns depend on the trimmed lines only.\<close>

lemma patterns_of_strip_cong:
  "map strip ls = map strip ls' \<Longrightarrow> patterns_of ls = patterns_of ls'"
proof (induction ls arbitrary: ls')
  case Nil
  then show ?case by simp
next
  case (Cons l ls)
  then obtain l' rest where ls': "ls' = l' # rest"
    by (cases ls') auto
  with Cons.prems have "strip l = strip l'" and "map strip ls = map strip rest"
    by simp_all
  then have "patterns_of ls = patterns_of rest" and "blank_or_comment l = blank_or_comment l'"
    using Cons.IH by (simp_all add: blank_or_comment_def)
  with \<open>strip l = strip l'\<close> show ?case
    by (simp add: ls' patterns_of_Cons)
qed

text \<open>
  Reading \<^verbatim>\<open>\r\n\<close> and \<^verbatim>\<open>\r\<close> as \<^verbatim>\<open>\n\<close> and cutting at \<^verbatim>\<open>\n\<close> gives the patterns of
  the pieces between line ends: the two differ by empty pieces and by the terminators the
  lines keep, and both are trimmed away.
\<close>

lemma patterns_split_lines_segments:
  "patterns_of (split_lines cur (universal_newlines t)) = patterns_of (segments cur t)"
proof (induction t arbitrary: cur rule: universal_newlines.induct)
  case 1
  show ?case by (simp add: line_simps)
next
  case (2 c)
  show ?case by (simp add: line_simps)
next
  case (3 c d cs)
  show ?case
  proof (cases "c = CR")
    case True
    show ?thesis
    proof (cases "d = LF")
      case dLF: True
      have "patterns_of (split_lines [] (universal_newlines cs)) = patterns_of (segments [] cs)"
        using 3(1) [OF True dLF] .
      with True dLF show ?thesis
        by (simp add: line_simps)
    next
      case dLF: False
      have "patterns_of (split_lines [] (universal_newlines (d # cs))) =
          patterns_of (segments [] (d # cs))"
        using 3(2) [OF True dLF] .
      with True dLF show ?thesis
        by (simp add: line_simps)
    qed
  next
    case False
    have ih: "patterns_of (split_lines cur' (universal_newlines (d # cs))) =
        patterns_of (segments cur' (d # cs))" for cur'
      using 3(3) [OF False] .
    show ?thesis
    proof (cases "c = LF")
      case True
      have "split_lines cur (universal_newlines (c # d # cs)) =
          (cur @ [LF]) # split_lines [] (universal_newlines (d # cs))"
        using True False by simp
      moreover have "segments cur (c # d # cs) = cur # segments [] (d # cs)"
        using True by simp
      ultimately show ?thesis
        using ih [of "[]"] by (simp only: line_simps)
    next
      case cLF: False
      have "split_lines cur (universal_newlines (c # d # cs)) =
          split_lines (cur @ [c]) (universal_newlines (d # cs))"
        using cLF False by simp
      moreover have "segments cur (c # d # cs) = segments (cur @ [c]) (d # cs)"
        using cLF False by simp
      ultimately show ?thesis
        using ih [of "cur @ [c]"] by (simp only:)
    qed
  qed
qed

lemma segments_append_LF: "segments a (x @ LF # y) = segments a x @ segments [] y"
  by (induction x arbitrary: a) simp_all

text \<open>The pieces of a text are the pieces of its lines, line after line.\<close>

lemma patterns_segments_raw:
  "patterns_of (segments [] (cur @ t)) = concat (map line_patterns (split_lines cur t))"
proof (induction t arbitrary: cur)
  case Nil
  show ?case by (simp add: line_patterns_def line_simps)
next
  case (Cons c cs)
  show ?case
  proof (cases "c = LF")
    case True
    have "line_patterns (cur @ [LF]) = line_patterns cur"
      using segments_append_LF [of "[]" cur "[]"]
      by (simp add: line_patterns_def patterns_of_append line_simps)
    then show ?thesis
      using True Cons.IH [of "[]"]
      by (simp add: segments_append_LF patterns_of_append line_patterns_def)
  next
    case False
    then show ?thesis
      using Cons.IH [of "cur @ [c]"] by simp
  qed
qed

text \<open>Whitespace at either end of a line of the file changes none of its patterns.\<close>

lemma patterns_segments_Cons_space:
  "isspace c \<Longrightarrow> patterns_of (segments (c # cur) s) = patterns_of (segments cur s)"
proof (induction s arbitrary: cur)
  case Nil
  then show ?case by (simp add: line_simps)
next
  case (Cons x xs)
  then show ?case
    using Cons.IH [of "cur @ [x]"] by (simp add: line_simps)
qed

lemma line_patterns_Cons_space: "isspace c \<Longrightarrow> line_patterns (c # s) = line_patterns s"
  using patterns_segments_Cons_space [of c "[]" s]
  by (simp add: line_patterns_def line_simps)

lemma patterns_segments_snoc_space:
  "isspace c \<Longrightarrow> patterns_of (segments cur (s @ [c])) = patterns_of (segments cur s)"
  by (induction s arbitrary: cur) (simp_all add: line_simps)

lemma line_patterns_snoc_space: "isspace c \<Longrightarrow> line_patterns (s @ [c]) = line_patterns s"
  by (simp add: line_patterns_def patterns_segments_snoc_space)

lemma line_patterns_lstrip: "line_patterns (dropWhile isspace s) = line_patterns s"
  by (induction s) (simp_all add: line_patterns_Cons_space)

lemma line_patterns_rstrip: "line_patterns (rev (dropWhile isspace (rev s))) = line_patterns s"
  by (induction s rule: rev_induct) (simp_all add: line_patterns_snoc_space)

lemma line_patterns_strip: "line_patterns (strip s) = line_patterns s"
  by (simp add: strip_def line_patterns_rstrip line_patterns_lstrip)

lemma patterns_readlines_raw:
  "patterns_of (readlines t) = concat (map (line_patterns \<circ> strip) (raw_lines t))"
  using patterns_split_lines_segments [of "[]" t] patterns_segments_raw [of "[]" t]
  by (simp add: readlines_def raw_lines_def line_patterns_strip comp_def)

lemma raw_lines_cong:
  assumes "map strip (raw_lines t) = map strip (raw_lines t')"
  shows "patterns_of (readlines t) = patterns_of (readlines t')"
proof -
  have "map (line_patterns \<circ> strip) (raw_lines t) = map (line_patterns \<circ> strip) (raw_lines t')"
    using arg_cong [OF assms, of "map line_patterns"] by simp
  then show ?thesis by (simp add: patterns_readlines_raw)
qed

text \<open>
  C10: two inputs whose lines are equal after trimming give the same document and the same
  run. The lines may be taken as the script reads them (line ends already translated) or
  as they stand in the file (cut at \<^verbatim>\<open>\n\<close>, a \<^verbatim>\<open>\r\<close> before it being trimmed as
  whitespace): in both readings the line-ending convention and the whitespace around each
  line do not reach the output.
\<close>

theorem output_invariant_under_trimming:
  assumes "read_input decode fs = Inr text" and "read_input decode fs' = Inr text'"
    and "map strip (readlines text) = map strip (readlines text') \<or>
      map strip (raw_lines text) = map strip (raw_lines text')"
  shows "document text = document text' \<and> main decode present fs = main decode present fs'"
proof -
  from assms(3) have "patterns_of (readlines text) = patterns_of (readlines text')"
    by (auto intro: patterns_of_strip_cong raw_lines_cong)
  then have "document text = document text'"
    by (simp add: document_def)
  with assms(1,2) show ?thesis
    by (simp add: main_def)
qed

theorem output_invariant_under_trimming_witness:
  "read_input decode_ascii (only_file padded_crlf) = Inr (ascii padded_crlf) \<and>
   read_input decode_ascii (only_file plain_lf) = Inr (ascii plain_lf) \<and>
   map strip (readlines (ascii padded_crlf)) = map strip (readlines (ascii plain_lf)) \<and>
   map strip (raw_lines (ascii padded_crlf)) = map strip (raw_lines (ascii plain_lf)) \<and>
   padded_crlf \<noteq> plain_lf \<and>
   document (ascii padded_crlf) = document (ascii plain_lf) \<and>
   (\<forall>present. main decode_ascii present (only_file padded_crlf) = main decode_ascii present (only_file plain_lf))"
proof -
  have r: "read_input decode_ascii (only_file padded_crlf) = Inr (ascii padded_crlf)"
    by (simp add: read_input_def only_file_def decode_ascii_def padded_crlf_def ascii_def)
  have r': "read_input decode_ascii (only_file plain_lf) = Inr (ascii plain_lf)"
    by (simp add: read_input_def only_file_def decode_ascii_def plain_lf_def ascii_def)
  have l: "map strip (readlines (ascii padded_crlf)) = map strip (readlines (ascii plain_lf))"
    by (simp add: padded_crlf_def plain_lf_def ascii_def readlines_def CR_def LF_def strip_def
        isspace_def)
  have raw: "map strip (raw_lines (ascii padded_crlf)) = map strip (raw_lines (ascii plain_lf))"
    by (simp add: padded_crlf_def plain_lf_def ascii_def raw_lines_def CR_def LF_def strip_def
        isspace_def)
  have d: "padded_crlf \<noteq> plain_lf"
    by (simp add: padded_crlf_def plain_lf_def)
  show ?thesis
    using r r' l raw d output_invariant_under_trimming [OF r r' disjI1 [OF l]] by simp
qed

end
